theory Spec2Isabelle
  imports Main
begin

section \<open>Values and exceptions of the Python program\<close>

text \<open>
  The module \<open>bem_saude/api/auth.py\<close> holds two functions, \<open>_obter_jwks\<close> and
  \<open>validar_token\<close>, and one global, \<open>_jwks_cache\<close>. They handle JSON values as
  Python objects: \<open>None\<close>, \<open>bool\<close>, \<open>int\<close>, \<open>str\<close>, \<open>list\<close> and \<open>dict\<close>. A \<open>dict\<close> is
  kept as the list of its items in insertion order (its keys are distinct); JSON
  numbers with a fraction are Python floats and stay outside this model.
\<close>

datatype json =
    JNull
  | JBool bool
  | JInt int
  | JStr string
  | JArr "json list"
  | JObj "(string \<times> json) list"

type_synonym pydict = "(string \<times> json) list"

text \<open>
  The exception classes the module names or lets through. \<open>JWTError\<close> stands for
  \<open>jose.JWTError\<close> with its subclasses, \<open>HTTPError\<close> for \<open>httpx.HTTPError\<close> with its
  subclasses; an \<open>except\<close> clause of the source catches the class whatever the subclass.
  \<open>HTTPException\<close> is FastAPI's, with its status code and its detail.
\<close>

datatype jwt_error = JWTErrorBase | ExpiredSignatureError | JWTClaimsError

datatype http_error = RequestError | HTTPStatusError

datatype detail =
    ChaveNaoEncontrada          \<comment> \<open>"Token invalido: chave nao encontrada"\<close>
  | TokenInvalidoOuExpirado     \<comment> \<open>"Token invalido ou expirado"\<close>
  | ErroAoValidarAutenticacao   \<comment> \<open>"Erro ao validar autenticacao"\<close>

datatype py_exception =
    JWTError jwt_error
  | HTTPError http_error
  | HTTPException nat detail
  | KeyError string
  | TypeError
  | AttributeError
  | OtherException string

definition HTTP_401_UNAUTHORIZED :: nat where
  "HTTP_401_UNAUTHORIZED = 401"

definition HTTP_503_SERVICE_UNAVAILABLE :: nat where
  "HTTP_503_SERVICE_UNAVAILABLE = 503"

subsection \<open>Python's operations on these values\<close>

text \<open>
  \<open>a == b\<close> on JSON values: \<open>bool\<close> is a subclass of \<open>int\<close> (\<open>True == 1\<close>), lists
  are compared element by element, dicts by their keys and the values under each key.
\<close>

fun py_eq :: "json \<Rightarrow> json \<Rightarrow> bool" where
  "py_eq JNull JNull = True"
| "py_eq (JBool a) (JBool b) = (a = b)"
| "py_eq (JBool a) (JInt j) = ((if a then 1 else 0) = j)"
| "py_eq (JInt i) (JBool b) = (i = (if b then 1 else 0))"
| "py_eq (JInt i) (JInt j) = (i = j)"
| "py_eq (JStr s) (JStr t) = (s = t)"
| "py_eq (JArr xs) (JArr ys) = list_all2 py_eq xs ys"
| "py_eq (JObj m) (JObj n) =
     (set (map fst m) = set (map fst n) \<and>
      (\<forall>(k, v) \<in> set m. \<forall>(k', v') \<in> set n. k = k' \<longrightarrow> py_eq v v'))"
| "py_eq _ _ = False"

text \<open>\<open>obj[k]\<close>: a \<open>dict\<close> without the key raises \<open>KeyError\<close>; a value that is no
  \<open>dict\<close> raises \<open>TypeError\<close> for a string index.\<close>

fun getitem :: "json \<Rightarrow> string \<Rightarrow> py_exception + json" where
  "getitem (JObj d) k = (case map_of d k of None \<Rightarrow> Inl (KeyError k) | Some v \<Rightarrow> Inr v)"
| "getitem _ k = Inl TypeError"

text \<open>\<open>obj.get(k, default)\<close>: only a \<open>dict\<close> has the method.\<close>

fun get_default :: "json \<Rightarrow> string \<Rightarrow> json \<Rightarrow> py_exception + json" where
  "get_default (JObj d) k dflt = Inr (case map_of d k of None \<Rightarrow> dflt | Some v \<Rightarrow> v)"
| "get_default _ k dflt = Inl AttributeError"

text \<open>\<open>for key in obj\<close>: a list yields its elements, a \<open>dict\<close> its keys, a string its
  characters (each a string of length one); the other values are not iterable.\<close>

fun py_iter :: "json \<Rightarrow> py_exception + json list" where
  "py_iter (JArr xs) = Inr xs"
| "py_iter (JObj d) = Inr (map (\<lambda>(k, v). JStr k) d)"
| "py_iter (JStr s) = Inr (map (\<lambda>c. JStr [c]) s)"
| "py_iter _ = Inl TypeError"

section \<open>What the module takes from outside\<close>

text \<open>
  \<open>bem_saude.api.configuracoes\<close> is not part of the sources at hand; the module reads
  two settings of it, taken here as a parameter.
\<close>

record configuracoes =
  AUTH0_DOMAIN :: string
  AUTH0_AUDIENCE :: string

text \<open>
  The third-party calls (\<open>httpx\<close>, \<open>python-jose\<close>) are parameters as well: each
  either raises or returns. \<open>libraries\<close> is their behaviour at the moment of one call
  of \<open>validar_token\<close> (the state of the network, the reading of the clock inside
  \<open>jwt.decode\<close>). \<open>jwt.get_unverified_header\<close> and \<open>jwt.decode\<close> return a \<open>dict\<close>.
  The arguments of \<open>jwt_decode\<close> are the token, the key, \<open>algorithms\<close>, \<open>audience\<close>
  and \<open>issuer\<close>.
\<close>

datatype response = Response nat string

record libraries =
  httpx_get :: "string \<Rightarrow> py_exception + response"
  raise_for_status :: "response \<Rightarrow> py_exception option"
  response_json :: "response \<Rightarrow> py_exception + json"
  jwt_get_unverified_header :: "string \<Rightarrow> py_exception + pydict"
  jwt_decode :: "string \<Rightarrow> pydict \<Rightarrow> string list \<Rightarrow> string \<Rightarrow> string \<Rightarrow> py_exception + pydict"

text \<open>
  The state of the process: the global \<open>_jwks_cache\<close> (\<open>JNull\<close> is Python's \<open>None\<close>,
  its initial value) and the URLs requested with \<open>httpx.get\<close> so far, oldest first.
\<close>

record world =
  jwks_cache :: json
  requests :: "string list"

section \<open>The module\<close>

text \<open>
  The calls of \<open>logger\<close> have no effect on what the functions return or raise and are
  left out. A function that raises returns \<open>Inl\<close> of the exception; \<open>validar_token\<close>
  returns \<open>Inr\<close> of the decoded payload.
\<close>

definition jwks_url :: "configuracoes \<Rightarrow> string" where
  "jwks_url cfg = ''https://'' @ AUTH0_DOMAIN cfg @ ''/.well-known/jwks.json''"

definition issuer :: "configuracoes \<Rightarrow> string" where
  "issuer cfg = ''https://'' @ AUTH0_DOMAIN cfg @ ''/''"

text \<open>\<open>_obter_jwks\<close>: the cache is returned when it is not \<open>None\<close>; otherwise one request
  is made, and the cache is assigned only after the three calls have returned.\<close>

definition obter_jwks :: "configuracoes \<Rightarrow> libraries \<Rightarrow> world \<Rightarrow> (py_exception + json) \<times> world" where
  "obter_jwks cfg lib w =
     (if jwks_cache w \<noteq> JNull then (Inr (jwks_cache w), w)
      else
        (let w1 = w\<lparr>requests := requests w @ [jwks_url cfg]\<rparr> in
         (case httpx_get lib (jwks_url cfg) of
            Inl e \<Rightarrow> (Inl e, w1)
          | Inr resp \<Rightarrow>
              (case raise_for_status lib resp of
                 Some e \<Rightarrow> (Inl e, w1)
               | None \<Rightarrow>
                   (case response_json lib resp of
                      Inl e \<Rightarrow> (Inl e, w1)
                    | Inr j \<Rightarrow> (Inr j, w1\<lparr>jwks_cache := j\<rparr>))))))"

text \<open>The dict literal of lines 65-71: the five values are read in this order.\<close>

definition rsa_key_of :: "json \<Rightarrow> py_exception + pydict" where
  "rsa_key_of key =
     (case getitem key ''kty'' of Inl e \<Rightarrow> Inl e | Inr kty \<Rightarrow>
     (case getitem key ''kid'' of Inl e \<Rightarrow> Inl e | Inr kid \<Rightarrow>
     (case getitem key ''use'' of Inl e \<Rightarrow> Inl e | Inr use \<Rightarrow>
     (case getitem key ''n'' of Inl e \<Rightarrow> Inl e | Inr n \<Rightarrow>
     (case getitem key ''e'' of Inl e \<Rightarrow> Inl e | Inr e \<Rightarrow>
        Inr [(''kty'', kty), (''kid'', kid), (''use'', use), (''n'', n), (''e'', e)])))))"

text \<open>The loop of lines 62-72: \<open>rsa_key\<close> starts as the empty dict and is assigned at
  the first entry whose \<open>kid\<close> equals the token's, where the loop breaks.\<close>

fun find_rsa_key :: "json \<Rightarrow> json list \<Rightarrow> py_exception + pydict" where
  "find_rsa_key kid [] = Inr []"
| "find_rsa_key kid (key # rest) =
     (case getitem key ''kid'' of
        Inl e \<Rightarrow> Inl e
      | Inr v \<Rightarrow> if py_eq v kid then rsa_key_of key else find_rsa_key kid rest)"

text \<open>The body of the \<open>try\<close> after \<open>_obter_jwks\<close> has returned \<open>jwks\<close>.\<close>

definition verificar :: "configuracoes \<Rightarrow> libraries \<Rightarrow> string \<Rightarrow> json \<Rightarrow> py_exception + pydict" where
  "verificar cfg lib token jwks =
     (case jwt_get_unverified_header lib token of
        Inl e \<Rightarrow> Inl e
      | Inr unverified_header \<Rightarrow>
          (let kid = (case map_of unverified_header ''kid'' of None \<Rightarrow> JNull | Some v \<Rightarrow> v) in
           (case get_default jwks ''keys'' (JArr []) of
              Inl e \<Rightarrow> Inl e
            | Inr keys \<Rightarrow>
                (case py_iter keys of
                   Inl e \<Rightarrow> Inl e
                 | Inr ks \<Rightarrow>
                     (case find_rsa_key kid ks of
                        Inl e \<Rightarrow> Inl e
                      | Inr rsa_key \<Rightarrow>
                          if rsa_key = [] then
                            Inl (HTTPException HTTP_401_UNAUTHORIZED ChaveNaoEncontrada)
                          else
                            jwt_decode lib token rsa_key [''RS256''] (AUTH0_AUDIENCE cfg)
                              (issuer cfg))))))"

text \<open>The two \<open>except\<close> clauses; any other exception leaves the function as it is.\<close>

fun except_clauses :: "py_exception \<Rightarrow> py_exception" where
  "except_clauses (JWTError k) = HTTPException HTTP_401_UNAUTHORIZED TokenInvalidoOuExpirado"
| "except_clauses (HTTPError k) = HTTPException HTTP_503_SERVICE_UNAVAILABLE ErroAoValidarAutenticacao"
| "except_clauses e = e"

definition validar_token ::
    "configuracoes \<Rightarrow> libraries \<Rightarrow> string \<Rightarrow> world \<Rightarrow> (py_exception + pydict) \<times> world" where
  "validar_token cfg lib token w =
     (case obter_jwks cfg lib w of
        (Inl e, w') \<Rightarrow> (Inl (except_clauses e), w')
      | (Inr jwks, w') \<Rightarrow>
          (case verificar cfg lib token jwks of
             Inl e \<Rightarrow> (Inl (except_clauses e), w')
           | Inr payload \<Rightarrow> (Inr payload, w')))"

section \<open>A synthetic provider\<close>

text \<open>
  Concrete parameters on which the theorems below are run: a provider whose key set
  holds one key, \<open>k1\<close>, and three tokens, \<open>t1\<close> (signed with \<open>k1\<close>), \<open>t2\<close> (naming a key
  \<open>k2\<close> the set does not hold) and \<open>t0\<close> (declaring the algorithm \<open>none\<close>). Any other
  string is no token. The signatures verify under the modulus of \<open>k1\<close> only; the reply
  of the network and the verdict of \<open>jwt.decode\<close> on a token whose algorithm is allowed
  and whose signature verifies are left open.
\<close>

definition ex_cfg :: configuracoes where
  "ex_cfg = \<lparr>AUTH0_DOMAIN = ''bem-saude.auth0.com'', AUTH0_AUDIENCE = ''bem-saude-api''\<rparr>"

definition ex_k1 :: json where
  "ex_k1 = JObj [(''kty'', JStr ''RSA''), (''kid'', JStr ''k1''), (''use'', JStr ''sig''),
                 (''n'', JStr ''0vx7agoebG''), (''e'', JStr ''AQAB'')]"

definition ex_k1_other :: json where
  "ex_k1_other = JObj [(''kty'', JStr ''RSA''), (''kid'', JStr ''k1''), (''use'', JStr ''sig''),
                       (''n'', JStr ''sXchDaQebH''), (''e'', JStr ''AQAB'')]"

definition ex_jwks :: json where
  "ex_jwks = JObj [(''keys'', JArr [ex_k1])]"

definition ex_header :: "string \<Rightarrow> py_exception + pydict" where
  "ex_header token =
     (if token = ''t1'' then Inr [(''alg'', JStr ''RS256''), (''kid'', JStr ''k1'')]
      else if token = ''t2'' then Inr [(''alg'', JStr ''RS256''), (''kid'', JStr ''k2'')]
      else if token = ''t0'' then Inr [(''alg'', JStr ''none''), (''kid'', JStr ''k2'')]
      else Inl (JWTError JWTErrorBase))"

definition ex_alg_allowed :: "string \<Rightarrow> string list \<Rightarrow> bool" where
  "ex_alg_allowed token algorithms =
     (case ex_header token of
        Inl e \<Rightarrow> False
      | Inr h \<Rightarrow> (case map_of h ''alg'' of Some (JStr a) \<Rightarrow> a \<in> set algorithms | _ \<Rightarrow> False))"

definition ex_status :: "response \<Rightarrow> py_exception option" where
  "ex_status r =
     (case r of Response code content \<Rightarrow>
        if 200 \<le> code \<and> code \<le> 299 then None else Some (HTTPError HTTPStatusError))"

definition ex_json :: "response \<Rightarrow> py_exception + json" where
  "ex_json r =
     (case r of Response code content \<Rightarrow>
        if content = ''jwks'' then Inr ex_jwks
        else if content = ''{}'' then Inr (JObj [])
        else Inl (OtherException ''JSONDecodeError''))"

definition ex_lib :: "(py_exception + response) \<Rightarrow> (py_exception + pydict) \<Rightarrow> libraries" where
  "ex_lib reply verdict =
     \<lparr>httpx_get = (\<lambda>url. reply),
      raise_for_status = ex_status,
      response_json = ex_json,
      jwt_get_unverified_header = ex_header,
      jwt_decode = (\<lambda>token key algorithms audience iss.
         if \<not> ex_alg_allowed token algorithms then Inl (JWTError JWTErrorBase)
         else if map_of key ''n'' \<noteq> Some (JStr ''0vx7agoebG'') then Inl (JWTError JWTErrorBase)
         else verdict)\<rparr>"

definition ex_claims :: pydict where
  "ex_claims = [(''iss'', JStr ''https://bem-saude.auth0.com/''), (''aud'', JStr ''bem-saude-api''),
                (''sub'', JStr ''auth0|42''), (''exp'', JInt 1762300000), (''scope'', JStr ''read:pacientes'')]"

definition ex_start :: world where
  "ex_start = \<lparr>jwks_cache = JNull, requests = []\<rparr>"

definition ex_cached :: world where
  "ex_cached = \<lparr>jwks_cache = ex_jwks, requests = [jwks_url ex_cfg]\<rparr>"

definition ex_twice :: world where
  "ex_twice = \<lparr>jwks_cache = JObj [(''keys'', JArr [ex_k1_other, ex_k1])],
               requests = [jwks_url ex_cfg]\<rparr>"

lemmas ex_defs =
  ex_cfg_def ex_k1_def ex_jwks_def ex_header_def ex_alg_allowed_def ex_status_def ex_json_def
  ex_lib_def ex_claims_def ex_start_def ex_cached_def ex_k1_other_def ex_twice_def

lemmas module_defs =
  validar_token_def obter_jwks_def verificar_def rsa_key_of_def jwks_url_def issuer_def
  HTTP_401_UNAUTHORIZED_def HTTP_503_SERVICE_UNAVAILABLE_def

section \<open>Properties of \<open>_obter_jwks\<close>\<close>

lemma obter_jwks_cached:
  "jwks_cache w \<noteq> JNull \<Longrightarrow> obter_jwks cfg lib w = (Inr (jwks_cache w), w)"
  by (simp add: obter_jwks_def)

lemma obter_jwks_requests:
  "requests (snd (obter_jwks cfg lib w)) =
     (if jwks_cache w = JNull then requests w @ [jwks_url cfg] else requests w)"
  by (simp add: obter_jwks_def Let_def split: sum.splits option.splits)

lemma obter_jwks_failure_cache:
  "fst (obter_jwks cfg lib w) = Inl e \<Longrightarrow> jwks_cache (snd (obter_jwks cfg lib w)) = jwks_cache w"
  by (auto simp: obter_jwks_def Let_def split: sum.splits option.splits if_splits)

text \<open>A request is made only when nothing is cached, so a call can fail only then.\<close>

lemma obter_jwks_failure_was_empty:
  "fst (obter_jwks cfg lib w) = Inl e \<Longrightarrow> jwks_cache w = JNull"
  by (simp add: obter_jwks_def split: if_splits)

lemma validar_token_world:
  "snd (validar_token cfg lib token w) = snd (obter_jwks cfg lib w)"
  by (simp add: validar_token_def split: prod.splits sum.splits)

lemma validar_token_result:
  "fst (validar_token cfg lib token w) =
     (case fst (obter_jwks cfg lib w) of
        Inl e \<Rightarrow> Inl (except_clauses e)
      | Inr jwks \<Rightarrow>
          (case verificar cfg lib token jwks of
             Inl e \<Rightarrow> Inl (except_clauses e)
           | Inr payload \<Rightarrow> Inr payload))"
  by (simp add: validar_token_def split: prod.splits sum.splits)

section \<open>Properties of the key lookup\<close>

lemma find_rsa_key_absent:
  "\<forall>key \<in> set ks. \<exists>v. getitem key ''kid'' = Inr v \<and> \<not> py_eq v kid \<Longrightarrow>
   find_rsa_key kid ks = Inr []"
  by (induction ks) auto

lemma find_rsa_key_first:
  assumes "\<forall>key \<in> set pre. \<exists>v. getitem key ''kid'' = Inr v \<and> \<not> py_eq v kid"
    and "getitem key ''kid'' = Inr v" and "py_eq v kid"
  shows "find_rsa_key kid (pre @ key # post) = rsa_key_of key"
  using assms by (induction pre) auto

lemma rsa_key_of_fields:
  assumes "map_of f ''kty'' = Some kty" and "map_of f ''kid'' = Some v"
    and "map_of f ''use'' = Some use" and "map_of f ''n'' = Some n" and "map_of f ''e'' = Some e"
  shows "rsa_key_of (JObj f) =
           Inr [(''kty'', kty), (''kid'', v), (''use'', use), (''n'', n), (''e'', e)]"
  using assms by (simp add: rsa_key_of_def)

lemma verificar_no_keys_field:
  assumes "map_of d ''keys'' = None" and "jwt_get_unverified_header lib token = Inr h"
  shows "verificar cfg lib token (JObj d) = Inl (HTTPException 401 ChaveNaoEncontrada)"
  using assms by (simp add: verificar_def HTTP_401_UNAUTHORIZED_def)

section \<open>The claims\<close>

subsection \<open>C9: a key set without the field \<open>keys\<close>\<close>

text \<open>
  C9. When the JWKS document at hand (cached or just fetched) is a JSON object without
  a top-level field \<open>keys\<close>, \<open>jwks.get("keys", [])\<close> yields the empty list: for a token
  whose header can be read, whatever its \<open>kid\<close>, no key matches and the token is
  rejected with HTTP 401 and the detail "chave nao encontrada", not with the 503 of a
  failed fetch.
\<close>

theorem missing_keys_field_is_key_not_found:
  assumes "fst (obter_jwks cfg lib w) = Inr (JObj d)"
    and "map_of d ''keys'' = None"
    and "jwt_get_unverified_header lib token = Inr h"
  shows "fst (validar_token cfg lib token w) = Inl (HTTPException 401 ChaveNaoEncontrada)"
  using assms by (simp add: validar_token_result verificar_no_keys_field)

theorem missing_keys_field_is_key_not_found_witness:
  "fst (obter_jwks ex_cfg (ex_lib (Inr (Response 200 ''{}'')) (Inr ex_claims)) ex_start) = Inr (JObj [])
   \<and> map_of ([] :: pydict) ''keys'' = None
   \<and> jwt_get_unverified_header (ex_lib (Inr (Response 200 ''{}'')) (Inr ex_claims)) ''t1''
        = Inr [(''alg'', JStr ''RS256''), (''kid'', JStr ''k1'')]
   \<and> fst (validar_token ex_cfg (ex_lib (Inr (Response 200 ''{}'')) (Inr ex_claims)) ''t1'' ex_start)
        = Inl (HTTPException 401 ChaveNaoEncontrada)"
proof -
  let ?lib = "ex_lib (Inr (Response 200 ''{}'')) (Inr ex_claims)"
  have a: "fst (obter_jwks ex_cfg ?lib ex_start) = Inr (JObj [])"
    by (simp add: obter_jwks_def ex_defs)
  have b: "map_of ([] :: pydict) ''keys'' = None" by simp
  have c: "jwt_get_unverified_header ?lib ''t1'' = Inr [(''alg'', JStr ''RS256''), (''kid'', JStr ''k1'')]"
    by (simp add: ex_defs)
  from missing_keys_field_is_key_not_found [OF a b c] a b c show ?thesis by simp
qed

subsection \<open>C3: a failed fetch and the cache\<close>

text \<open>
  C3. A call of \<open>_obter_jwks\<close> that fails, whatever the exception, leaves \<open>_jwks_cache\<close>
  as it was, and so does the call of \<open>validar_token\<close> around it. A cache that holds a
  snapshot is never cleared nor replaced by a later call: the call returns the world
  unchanged and its answer is the one the cached snapshot gives, so a key identifier
  the snapshot holds is still resolved.
\<close>

theorem failed_fetch_keeps_cache:
  "(fst (obter_jwks cfg lib w) = Inl e \<longrightarrow>
      jwks_cache (snd (obter_jwks cfg lib w)) = jwks_cache w \<and>
      jwks_cache (snd (validar_token cfg lib token w)) = jwks_cache w)
   \<and> (jwks_cache w \<noteq> JNull \<longrightarrow>
      snd (validar_token cfg lib token w) = w \<and>
      fst (validar_token cfg lib token w) =
        (case verificar cfg lib token (jwks_cache w) of
           Inl e \<Rightarrow> Inl (except_clauses e) | Inr payload \<Rightarrow> Inr payload))"
  by (simp add: validar_token_world validar_token_result obter_jwks_failure_cache obter_jwks_cached)

theorem failed_fetch_keeps_cache_witness:
  "fst (obter_jwks ex_cfg (ex_lib (Inl (HTTPError RequestError)) (Inr ex_claims)) ex_start)
     = Inl (HTTPError RequestError)
   \<and> jwks_cache (snd (validar_token ex_cfg (ex_lib (Inl (HTTPError RequestError)) (Inr ex_claims)) ''t1'' ex_start))
     = jwks_cache ex_start
   \<and> jwks_cache ex_cached \<noteq> JNull
   \<and> validar_token ex_cfg (ex_lib (Inl (HTTPError RequestError)) (Inr ex_claims)) ''t1'' ex_cached
     = (Inr ex_claims, ex_cached)"
proof -
  let ?lib = "ex_lib (Inl (HTTPError RequestError)) (Inr ex_claims)"
  have a: "fst (obter_jwks ex_cfg ?lib ex_start) = Inl (HTTPError RequestError)"
    by (simp add: obter_jwks_def ex_defs)
  have b: "jwks_cache ex_cached \<noteq> JNull"
    by (simp add: ex_defs)
  have c: "verificar ex_cfg ?lib ''t1'' (jwks_cache ex_cached) = Inr ex_claims"
    by (simp add: verificar_def rsa_key_of_def ex_defs)
  from failed_fetch_keeps_cache [of ex_cfg ?lib ex_start "HTTPError RequestError" "''t1''"] a
  have d: "jwks_cache (snd (validar_token ex_cfg ?lib ''t1'' ex_start)) = jwks_cache ex_start"
    by simp
  from failed_fetch_keeps_cache [of ex_cfg ?lib ex_cached "HTTPError RequestError" "''t1''"] b c
  have e: "validar_token ex_cfg ?lib ''t1'' ex_cached = (Inr ex_claims, ex_cached)"
    by (simp add: prod_eq_iff)
  from a b d e show ?thesis by simp
qed

subsection \<open>C1: when the key set is fetched\<close>

lemma verificar_kid_absent:
  assumes "map_of d ''keys'' = Some (JArr ks)"
    and "jwt_get_unverified_header lib token = Inr h"
    and "\<forall>key \<in> set ks. \<exists>v. getitem key ''kid'' = Inr v \<and>
           \<not> py_eq v (case map_of h ''kid'' of None \<Rightarrow> JNull | Some v \<Rightarrow> v)"
  shows "verificar cfg lib token (JObj d) = Inl (HTTPException 401 ChaveNaoEncontrada)"
  using assms(1,2) find_rsa_key_absent [OF assms(3)]
  by (simp add: verificar_def HTTP_401_UNAUTHORIZED_def)

text \<open>
  C1, as stated, on the synthetic provider: the key set is cached, the token \<open>t2\<close>
  names the key \<open>k2\<close> that the cached set does not hold. The token is rejected with
  401 "chave nao encontrada" and no request has been made: the list of requests is the
  one before the call.
\<close>

theorem no_refetch_counterexample:
  "fst (validar_token ex_cfg (ex_lib (Inr (Response 200 ''jwks'')) (Inr ex_claims)) ''t2'' ex_cached)
     = Inl (HTTPException 401 ChaveNaoEncontrada)
   \<and> requests (snd (validar_token ex_cfg (ex_lib (Inr (Response 200 ''jwks'')) (Inr ex_claims)) ''t2'' ex_cached))
     = requests ex_cached"
  by (simp add: module_defs ex_defs)

text \<open>
  C1, amended. \<open>validar_token\<close> requests the key set exactly once when nothing is cached
  (\<open>_jwks_cache\<close> is \<open>None\<close>) and never when a snapshot is cached, whatever its age; the key
  identifier is looked up once, in the snapshot at hand (cached or just fetched), and
  when no entry of it carries that identifier the token is rejected with 401
  "chave nao encontrada".
\<close>

theorem fetch_only_when_cache_is_empty:
  "requests (snd (validar_token cfg lib token w)) =
     (if jwks_cache w = JNull then requests w @ [jwks_url cfg] else requests w)
   \<and> (fst (obter_jwks cfg lib w) = Inr (JObj d) \<and> map_of d ''keys'' = Some (JArr ks) \<and>
        jwt_get_unverified_header lib token = Inr h \<and>
        (\<forall>key \<in> set ks. \<exists>v. getitem key ''kid'' = Inr v \<and>
           \<not> py_eq v (case map_of h ''kid'' of None \<Rightarrow> JNull | Some v \<Rightarrow> v))
      \<longrightarrow> fst (validar_token cfg lib token w) = Inl (HTTPException 401 ChaveNaoEncontrada))"
proof (intro conjI impI)
  show "requests (snd (validar_token cfg lib token w)) =
     (if jwks_cache w = JNull then requests w @ [jwks_url cfg] else requests w)"
    by (simp only: validar_token_world obter_jwks_requests)
next
  assume a: "fst (obter_jwks cfg lib w) = Inr (JObj d) \<and> map_of d ''keys'' = Some (JArr ks) \<and>
        jwt_get_unverified_header lib token = Inr h \<and>
        (\<forall>key \<in> set ks. \<exists>v. getitem key ''kid'' = Inr v \<and>
           \<not> py_eq v (case map_of h ''kid'' of None \<Rightarrow> JNull | Some v \<Rightarrow> v))"
  then have "verificar cfg lib token (JObj d) = Inl (HTTPException 401 ChaveNaoEncontrada)"
    by (intro verificar_kid_absent [of d ks lib token h]) simp_all
  with a show "fst (validar_token cfg lib token w) = Inl (HTTPException 401 ChaveNaoEncontrada)"
    by (simp add: validar_token_result)
qed

theorem fetch_only_when_cache_is_empty_witness:
  "requests (snd (validar_token ex_cfg (ex_lib (Inr (Response 200 ''jwks'')) (Inr ex_claims)) ''t2'' ex_start))
     = [''https://bem-saude.auth0.com/.well-known/jwks.json'']
   \<and> requests (snd (validar_token ex_cfg (ex_lib (Inr (Response 200 ''jwks'')) (Inr ex_claims)) ''t2'' ex_cached))
     = [''https://bem-saude.auth0.com/.well-known/jwks.json'']
   \<and> fst (validar_token ex_cfg (ex_lib (Inr (Response 200 ''jwks'')) (Inr ex_claims)) ''t2'' ex_start)
     = Inl (HTTPException 401 ChaveNaoEncontrada)"
proof -
  let ?lib = "ex_lib (Inr (Response 200 ''jwks'')) (Inr ex_claims)"
  let ?h = "[(''alg'', JStr ''RS256''), (''kid'', JStr ''k2'')]"
  have a: "fst (obter_jwks ex_cfg ?lib ex_start) = Inr (JObj [(''keys'', JArr [ex_k1])])"
    by (simp add: obter_jwks_def ex_defs)
  have b: "map_of [(''keys'', JArr [ex_k1])] ''keys'' = Some (JArr [ex_k1])" by simp
  have c: "jwt_get_unverified_header ?lib ''t2'' = Inr ?h"
    by (simp add: ex_defs)
  have d: "\<forall>key \<in> set [ex_k1]. \<exists>v. getitem key ''kid'' = Inr v \<and>
           \<not> py_eq v (case map_of ?h ''kid'' of None \<Rightarrow> JNull | Some v \<Rightarrow> v)"
    by (simp add: ex_defs)
  have e: "jwks_cache ex_start = JNull" "jwks_cache ex_cached \<noteq> JNull"
    "requests ex_start = []" "requests ex_cached = [jwks_url ex_cfg]"
    "jwks_url ex_cfg = ''https://bem-saude.auth0.com/.well-known/jwks.json''"
    by (simp_all add: ex_defs jwks_url_def)
  from fetch_only_when_cache_is_empty [of ex_cfg ?lib "''t2''" ex_start "[(''keys'', JArr [ex_k1])]" "[ex_k1]" ?h]
       fetch_only_when_cache_is_empty [of ex_cfg ?lib "''t2''" ex_cached "[(''keys'', JArr [ex_k1])]" "[ex_k1]" ?h]
       a b c d e
  show ?thesis by simp
qed

subsection \<open>C4: how a failed fetch is reported\<close>

lemma obter_jwks_http_error:
  assumes "jwks_cache w = JNull"
    and "httpx_get lib (jwks_url cfg) = Inl e \<or>
         (\<exists>resp. httpx_get lib (jwks_url cfg) = Inr resp \<and> raise_for_status lib resp = Some e)"
  shows "fst (obter_jwks cfg lib w) = Inl e"
  using assms by (auto simp: obter_jwks_def Let_def)

text \<open>
  C4, as stated, on the synthetic provider: nothing is cached and the provider answers
  200 with the payload \<open>{}\<close>, a key set without keys. The fetch returns it, and the
  token \<open>t1\<close> is rejected with 401 "chave nao encontrada", not with 503.
\<close>

theorem malformed_key_set_counterexample:
  "fst (obter_jwks ex_cfg (ex_lib (Inr (Response 200 ''{}'')) (Inr ex_claims)) ex_start) = Inr (JObj [])
   \<and> fst (validar_token ex_cfg (ex_lib (Inr (Response 200 ''{}'')) (Inr ex_claims)) ''t1'' ex_start)
       = Inl (HTTPException 401 ChaveNaoEncontrada)
   \<and> fst (validar_token ex_cfg (ex_lib (Inr (Response 200 ''{}'')) (Inr ex_claims)) ''t1'' ex_start)
       \<noteq> Inl (HTTPException 503 ErroAoValidarAutenticacao)"
  by (simp add: module_defs ex_defs)

text \<open>
  C4, amended. A fetch that fails with an \<open>httpx.HTTPError\<close>, raised by \<open>httpx.get\<close>
  (network error, timeout) or by \<open>raise_for_status\<close> (status of the provider), is
  reported as HTTP 503 "Erro ao validar autenticacao" and never as 401. A payload that
  is a JSON object without \<open>keys\<close> is no failure of the fetch: the token is rejected
  with 401 "chave nao encontrada".
\<close>

theorem fetch_http_error_is_503:
  "(jwks_cache w = JNull \<and>
      (httpx_get lib (jwks_url cfg) = Inl (HTTPError k) \<or>
       (\<exists>resp. httpx_get lib (jwks_url cfg) = Inr resp \<and>
               raise_for_status lib resp = Some (HTTPError k)))
    \<longrightarrow> fst (validar_token cfg lib token w) = Inl (HTTPException 503 ErroAoValidarAutenticacao))
   \<and> (fst (obter_jwks cfg lib w) = Inr (JObj d) \<and> map_of d ''keys'' = None \<and>
       jwt_get_unverified_header lib token = Inr h
    \<longrightarrow> fst (validar_token cfg lib token w) = Inl (HTTPException 401 ChaveNaoEncontrada))"
proof (intro conjI impI)
  assume a: "jwks_cache w = JNull \<and>
      (httpx_get lib (jwks_url cfg) = Inl (HTTPError k) \<or>
       (\<exists>resp. httpx_get lib (jwks_url cfg) = Inr resp \<and>
               raise_for_status lib resp = Some (HTTPError k)))"
  then have "fst (obter_jwks cfg lib w) = Inl (HTTPError k)"
    by (intro obter_jwks_http_error) simp_all
  then show "fst (validar_token cfg lib token w) = Inl (HTTPException 503 ErroAoValidarAutenticacao)"
    by (simp add: validar_token_result HTTP_503_SERVICE_UNAVAILABLE_def)
next
  assume "fst (obter_jwks cfg lib w) = Inr (JObj d) \<and> map_of d ''keys'' = None \<and>
       jwt_get_unverified_header lib token = Inr h"
  then show "fst (validar_token cfg lib token w) = Inl (HTTPException 401 ChaveNaoEncontrada)"
    by (simp add: validar_token_result verificar_no_keys_field)
qed

theorem fetch_http_error_is_503_witness:
  "fst (validar_token ex_cfg (ex_lib (Inl (HTTPError RequestError)) (Inr ex_claims)) ''t1'' ex_start)
     = Inl (HTTPException 503 ErroAoValidarAutenticacao)
   \<and> fst (validar_token ex_cfg (ex_lib (Inr (Response 500 ''jwks'')) (Inr ex_claims)) ''t1'' ex_start)
     = Inl (HTTPException 503 ErroAoValidarAutenticacao)
   \<and> fst (validar_token ex_cfg (ex_lib (Inr (Response 200 ''{}'')) (Inr ex_claims)) ''t2'' ex_start)
     = Inl (HTTPException 401 ChaveNaoEncontrada)"
proof -
  let ?down = "ex_lib (Inl (HTTPError RequestError)) (Inr ex_claims)"
  let ?err = "ex_lib (Inr (Response 500 ''jwks'')) (Inr ex_claims)"
  let ?nokeys = "ex_lib (Inr (Response 200 ''{}'')) (Inr ex_claims)"
  have e: "jwks_cache ex_start = JNull" by (simp add: ex_defs)
  have a: "httpx_get ?down (jwks_url ex_cfg) = Inl (HTTPError RequestError)"
    by (simp add: ex_defs)
  have b: "\<exists>resp. httpx_get ?err (jwks_url ex_cfg) = Inr resp \<and>
             raise_for_status ?err resp = Some (HTTPError HTTPStatusError)"
    by (simp add: ex_defs)
  have c: "fst (obter_jwks ex_cfg ?nokeys ex_start) = Inr (JObj [])"
    by (simp add: obter_jwks_def ex_defs)
  have d: "jwt_get_unverified_header ?nokeys ''t2'' = Inr [(''alg'', JStr ''RS256''), (''kid'', JStr ''k2'')]"
    by (simp add: ex_defs)
  from fetch_http_error_is_503 [of ex_start ?down ex_cfg RequestError "''t1''"] e a
  have 1: "fst (validar_token ex_cfg ?down ''t1'' ex_start) = Inl (HTTPException 503 ErroAoValidarAutenticacao)"
    by simp
  from fetch_http_error_is_503 [of ex_start ?err ex_cfg HTTPStatusError "''t1''"] e b
  have 2: "fst (validar_token ex_cfg ?err ''t1'' ex_start) = Inl (HTTPException 503 ErroAoValidarAutenticacao)"
    by simp
  from fetch_http_error_is_503 [of ex_start ?nokeys ex_cfg _ "''t2''" "[]" "[(''alg'', JStr ''RS256''), (''kid'', JStr ''k2'')]"] c d
  have 3: "fst (validar_token ex_cfg ?nokeys ''t2'' ex_start) = Inl (HTTPException 401 ChaveNaoEncontrada)"
    by simp
  from 1 2 3 show ?thesis by simp
qed

subsection \<open>C10: two entries with the same key identifier\<close>

lemma verificar_first_match:
  assumes "map_of d ''keys'' = Some (JArr (pre @ JObj f # post))"
    and "jwt_get_unverified_header lib token = Inr h"
    and "kid = (case map_of h ''kid'' of None \<Rightarrow> JNull | Some v \<Rightarrow> v)"
    and "\<forall>key \<in> set pre. \<exists>v. getitem key ''kid'' = Inr v \<and> \<not> py_eq v kid"
    and "map_of f ''kty'' = Some kty" and "map_of f ''kid'' = Some v"
    and "map_of f ''use'' = Some use" and "map_of f ''n'' = Some n" and "map_of f ''e'' = Some e"
    and "py_eq v kid"
  shows "verificar cfg lib token (JObj d) =
           jwt_decode lib token [(''kty'', kty), (''kid'', v), (''use'', use), (''n'', n), (''e'', e)]
             [''RS256''] (AUTH0_AUDIENCE cfg) (issuer cfg)"
proof -
  have "getitem (JObj f) ''kid'' = Inr v"
    using assms(6) by simp
  from find_rsa_key_first [OF assms(4) this assms(10)]
  have "find_rsa_key kid (pre @ JObj f # post) =
          Inr [(''kty'', kty), (''kid'', v), (''use'', use), (''n'', n), (''e'', e)]"
    by (simp add: rsa_key_of_fields [OF assms(5-9)])
  with assms(1,2,3) show ?thesis
    by (simp add: verificar_def)
qed

text \<open>
  C10. When the list of keys holds an entry whose \<open>kid\<close> equals the one the token
  declares, after entries that all carry another \<open>kid\<close>, that first matching entry gives
  the key: \<open>jwt.decode\<close> is called with its \<open>kty\<close>, \<open>kid\<close>, \<open>use\<close>, \<open>n\<close> and \<open>e\<close>, and
  the answer of \<open>validar_token\<close> is the verdict of that call. The entries after it are
  arbitrary: they are not read, whether or not they carry the same \<open>kid\<close>.
\<close>

theorem first_matching_key_is_used:
  assumes "fst (obter_jwks cfg lib w) = Inr (JObj d)"
    and "map_of d ''keys'' = Some (JArr (pre @ JObj f # post))"
    and "jwt_get_unverified_header lib token = Inr h"
    and "kid = (case map_of h ''kid'' of None \<Rightarrow> JNull | Some v \<Rightarrow> v)"
    and "\<forall>key \<in> set pre. \<exists>v. getitem key ''kid'' = Inr v \<and> \<not> py_eq v kid"
    and "map_of f ''kty'' = Some kty" and "map_of f ''kid'' = Some v"
    and "map_of f ''use'' = Some use" and "map_of f ''n'' = Some n" and "map_of f ''e'' = Some e"
    and "py_eq v kid"
  shows "fst (validar_token cfg lib token w) =
           (case jwt_decode lib token
                   [(''kty'', kty), (''kid'', v), (''use'', use), (''n'', n), (''e'', e)]
                   [''RS256''] (AUTH0_AUDIENCE cfg) (issuer cfg) of
              Inl e \<Rightarrow> Inl (except_clauses e)
            | Inr payload \<Rightarrow> Inr payload)"
  using assms(1) verificar_first_match [OF assms(2-11), of cfg]
  by (simp add: validar_token_result)

theorem first_matching_key_is_used_witness:
  "fst (validar_token ex_cfg (ex_lib (Inr (Response 200 ''jwks'')) (Inr ex_claims)) ''t1'' ex_twice)
     = Inl (HTTPException 401 TokenInvalidoOuExpirado)
   \<and> jwt_decode (ex_lib (Inr (Response 200 ''jwks'')) (Inr ex_claims)) ''t1''
        [(''kty'', JStr ''RSA''), (''kid'', JStr ''k1''), (''use'', JStr ''sig''),
         (''n'', JStr ''sXchDaQebH''), (''e'', JStr ''AQAB'')]
        [''RS256''] (AUTH0_AUDIENCE ex_cfg) (issuer ex_cfg) = Inl (JWTError JWTErrorBase)
   \<and> jwt_decode (ex_lib (Inr (Response 200 ''jwks'')) (Inr ex_claims)) ''t1''
        [(''kty'', JStr ''RSA''), (''kid'', JStr ''k1''), (''use'', JStr ''sig''),
         (''n'', JStr ''0vx7agoebG''), (''e'', JStr ''AQAB'')]
        [''RS256''] (AUTH0_AUDIENCE ex_cfg) (issuer ex_cfg) = Inr ex_claims"
proof -
  let ?lib = "ex_lib (Inr (Response 200 ''jwks'')) (Inr ex_claims)"
  let ?f = "[(''kty'', JStr ''RSA''), (''kid'', JStr ''k1''), (''use'', JStr ''sig''),
             (''n'', JStr ''sXchDaQebH''), (''e'', JStr ''AQAB'')]"
  let ?d = "[(''keys'', JArr ([] @ JObj ?f # [ex_k1]))]"
  let ?h = "[(''alg'', JStr ''RS256''), (''kid'', JStr ''k1'')]"
  have a: "fst (obter_jwks ex_cfg ?lib ex_twice) = Inr (JObj ?d)"
    by (simp add: obter_jwks_def ex_defs)
  have b: "map_of ?d ''keys'' = Some (JArr ([] @ JObj ?f # [ex_k1]))" by simp
  have c: "jwt_get_unverified_header ?lib ''t1'' = Inr ?h" by (simp add: ex_defs)
  have d: "JStr ''k1'' = (case map_of ?h ''kid'' of None \<Rightarrow> JNull | Some v \<Rightarrow> v)" by simp
  have e: "\<forall>key \<in> set []. \<exists>v. getitem key ''kid'' = Inr v \<and> \<not> py_eq v (JStr ''k1'')" by simp
  have f: "map_of ?f ''kty'' = Some (JStr ''RSA'')" "map_of ?f ''kid'' = Some (JStr ''k1'')"
    "map_of ?f ''use'' = Some (JStr ''sig'')" "map_of ?f ''n'' = Some (JStr ''sXchDaQebH'')"
    "map_of ?f ''e'' = Some (JStr ''AQAB'')" "py_eq (JStr ''k1'') (JStr ''k1'')"
    by simp_all
  have g: "jwt_decode ?lib ''t1'' ?f [''RS256''] (AUTH0_AUDIENCE ex_cfg) (issuer ex_cfg)
             = Inl (JWTError JWTErrorBase)"
    by (simp add: ex_defs)
  have i: "jwt_decode ?lib ''t1''
        [(''kty'', JStr ''RSA''), (''kid'', JStr ''k1''), (''use'', JStr ''sig''),
         (''n'', JStr ''0vx7agoebG''), (''e'', JStr ''AQAB'')]
        [''RS256''] (AUTH0_AUDIENCE ex_cfg) (issuer ex_cfg) = Inr ex_claims"
    by (simp add: ex_defs)
  from first_matching_key_is_used [OF a b c d e f] g
  have "fst (validar_token ex_cfg ?lib ''t1'' ex_twice) = Inl (HTTPException 401 TokenInvalidoOuExpirado)"
    by (simp add: HTTP_401_UNAUTHORIZED_def)
  with g i show ?thesis by simp
qed

subsection \<open>C6: a valid token\<close>

lemma rsa_key_of_wellformed:
  assumes "{''kty'', ''kid'', ''use'', ''n'', ''e''} \<subseteq> dom (map_of f)"
  shows "\<exists>kty v use n e.
           map_of f ''kty'' = Some kty \<and> map_of f ''kid'' = Some v \<and> map_of f ''use'' = Some use \<and>
           map_of f ''n'' = Some n \<and> map_of f ''e'' = Some e \<and>
           rsa_key_of (JObj f) = Inr [(''kty'', kty), (''kid'', v), (''use'', use), (''n'', n), (''e'', e)]"
proof -
  from assms obtain kty v use n e where
    "map_of f ''kty'' = Some kty" "map_of f ''kid'' = Some v" "map_of f ''use'' = Some use"
    "map_of f ''n'' = Some n" "map_of f ''e'' = Some e"
    by (auto simp: dom_def)
  then show ?thesis
    by (simp add: rsa_key_of_fields)
qed

lemma find_rsa_key_present:
  assumes "\<forall>key \<in> set ks. \<exists>f. key = JObj f \<and> {''kty'', ''kid'', ''use'', ''n'', ''e''} \<subseteq> dom (map_of f)"
    and "\<exists>key \<in> set ks. \<exists>v. getitem key ''kid'' = Inr v \<and> py_eq v kid"
  shows "\<exists>f kty v use n e. JObj f \<in> set ks \<and>
           map_of f ''kty'' = Some kty \<and> map_of f ''kid'' = Some v \<and> map_of f ''use'' = Some use \<and>
           map_of f ''n'' = Some n \<and> map_of f ''e'' = Some e \<and> py_eq v kid \<and>
           find_rsa_key kid ks = Inr [(''kty'', kty), (''kid'', v), (''use'', use), (''n'', n), (''e'', e)]"
  using assms
proof (induction ks)
  case Nil
  then show ?case by simp
next
  case (Cons key ks)
  from Cons.prems(1) obtain f where f: "key = JObj f"
    "{''kty'', ''kid'', ''use'', ''n'', ''e''} \<subseteq> dom (map_of f)"
    by auto
  from rsa_key_of_wellformed [OF f(2)] obtain kty v use n e where
    flds: "map_of f ''kty'' = Some kty" "map_of f ''kid'' = Some v" "map_of f ''use'' = Some use"
      "map_of f ''n'' = Some n" "map_of f ''e'' = Some e"
      "rsa_key_of (JObj f) = Inr [(''kty'', kty), (''kid'', v), (''use'', use), (''n'', n), (''e'', e)]"
    by blast
  show ?case
  proof (cases "py_eq v kid")
    case True
    with f(1) flds have "JObj f \<in> set (key # ks) \<and>
           map_of f ''kty'' = Some kty \<and> map_of f ''kid'' = Some v \<and> map_of f ''use'' = Some use \<and>
           map_of f ''n'' = Some n \<and> map_of f ''e'' = Some e \<and> py_eq v kid \<and>
           find_rsa_key kid (key # ks) = Inr [(''kty'', kty), (''kid'', v), (''use'', use), (''n'', n), (''e'', e)]"
      by simp
    then show ?thesis by blast
  next
    case False
    with Cons.prems(2) f(1) flds(2)
    have "\<exists>key \<in> set ks. \<exists>v. getitem key ''kid'' = Inr v \<and> py_eq v kid"
      by auto
    with Cons.IH Cons.prems(1) obtain f' kty' v' use' n' e' where
      "JObj f' \<in> set ks" "map_of f' ''kty'' = Some kty'" "map_of f' ''kid'' = Some v'"
      "map_of f' ''use'' = Some use'" "map_of f' ''n'' = Some n'" "map_of f' ''e'' = Some e'"
      "py_eq v' kid"
      "find_rsa_key kid ks = Inr [(''kty'', kty'), (''kid'', v'), (''use'', use'), (''n'', n'), (''e'', e')]"
      by auto
    with False f(1) flds(2) have "JObj f' \<in> set (key # ks) \<and>
           map_of f' ''kty'' = Some kty' \<and> map_of f' ''kid'' = Some v' \<and> map_of f' ''use'' = Some use' \<and>
           map_of f' ''n'' = Some n' \<and> map_of f' ''e'' = Some e' \<and> py_eq v' kid \<and>
           find_rsa_key kid (key # ks) = Inr [(''kty'', kty'), (''kid'', v'), (''use'', use'), (''n'', n'), (''e'', e')]"
      by simp
    then show ?thesis by blast
  qed
qed

text \<open>
  C6. The key set at hand is a list of signing keys (each entry a dict with \<open>kty\<close>,
  \<open>kid\<close>, \<open>use\<close>, \<open>n\<close>, \<open>e\<close>), one of which carries the \<open>kid\<close> the token declares, and
  the token is valid: \<open>jwt.decode\<close>, asked for the algorithm RS256, the configured
  audience and the issuer of the configured domain, accepts it under a key with that
  \<open>kid\<close> and returns the claims \<open>payload\<close>. Then \<open>validar_token\<close> returns exactly
  \<open>payload\<close>, and no failure.
\<close>

theorem valid_token_returns_claims:
  assumes "fst (obter_jwks cfg lib w) = Inr (JObj d)"
    and "map_of d ''keys'' = Some (JArr ks)"
    and "jwt_get_unverified_header lib token = Inr h"
    and "kid = (case map_of h ''kid'' of None \<Rightarrow> JNull | Some v \<Rightarrow> v)"
    and "\<forall>key \<in> set ks. \<exists>f. key = JObj f \<and> {''kty'', ''kid'', ''use'', ''n'', ''e''} \<subseteq> dom (map_of f)"
    and "\<exists>key \<in> set ks. \<exists>v. getitem key ''kid'' = Inr v \<and> py_eq v kid"
    and "\<And>f kty v use n e. JObj f \<in> set ks \<Longrightarrow> map_of f ''kty'' = Some kty \<Longrightarrow>
           map_of f ''kid'' = Some v \<Longrightarrow> map_of f ''use'' = Some use \<Longrightarrow> map_of f ''n'' = Some n \<Longrightarrow>
           map_of f ''e'' = Some e \<Longrightarrow> py_eq v kid \<Longrightarrow>
           jwt_decode lib token [(''kty'', kty), (''kid'', v), (''use'', use), (''n'', n), (''e'', e)]
             [''RS256''] (AUTH0_AUDIENCE cfg) (issuer cfg) = Inr payload"
  shows "fst (validar_token cfg lib token w) = Inr payload"
proof -
  from find_rsa_key_present [OF assms(5,6)] obtain f kty v use n e where
    k: "JObj f \<in> set ks" "map_of f ''kty'' = Some kty" "map_of f ''kid'' = Some v"
      "map_of f ''use'' = Some use" "map_of f ''n'' = Some n" "map_of f ''e'' = Some e" "py_eq v kid"
      "find_rsa_key kid ks = Inr [(''kty'', kty), (''kid'', v), (''use'', use), (''n'', n), (''e'', e)]"
    by blast
  from assms(7) [OF k(1-7)]
  have "jwt_decode lib token [(''kty'', kty), (''kid'', v), (''use'', use), (''n'', n), (''e'', e)]
             [''RS256''] (AUTH0_AUDIENCE cfg) (issuer cfg) = Inr payload" .
  with k(8) assms(2,3,4) have "verificar cfg lib token (JObj d) = Inr payload"
    by (simp add: verificar_def)
  with assms(1) show ?thesis
    by (simp add: validar_token_result)
qed

theorem valid_token_returns_claims_witness:
  "fst (obter_jwks ex_cfg (ex_lib (Inr (Response 200 ''jwks'')) (Inr ex_claims)) ex_start) = Inr ex_jwks
   \<and> jwt_get_unverified_header (ex_lib (Inr (Response 200 ''jwks'')) (Inr ex_claims)) ''t1''
       = Inr [(''alg'', JStr ''RS256''), (''kid'', JStr ''k1'')]
   \<and> validar_token ex_cfg (ex_lib (Inr (Response 200 ''jwks'')) (Inr ex_claims)) ''t1'' ex_start
       = (Inr ex_claims, ex_cached)"
proof -
  let ?lib = "ex_lib (Inr (Response 200 ''jwks'')) (Inr ex_claims)"
  let ?h = "[(''alg'', JStr ''RS256''), (''kid'', JStr ''k1'')]"
  let ?d = "[(''keys'', JArr [ex_k1])]"
  have a: "fst (obter_jwks ex_cfg ?lib ex_start) = Inr (JObj ?d)"
    by (simp add: obter_jwks_def ex_defs)
  have b: "map_of ?d ''keys'' = Some (JArr [ex_k1])" by simp
  have c: "jwt_get_unverified_header ?lib ''t1'' = Inr ?h" by (simp add: ex_defs)
  have d: "JStr ''k1'' = (case map_of ?h ''kid'' of None \<Rightarrow> JNull | Some v \<Rightarrow> v)" by simp
  have e: "\<forall>key \<in> set [ex_k1]. \<exists>f. key = JObj f \<and>
             {''kty'', ''kid'', ''use'', ''n'', ''e''} \<subseteq> dom (map_of f)"
    by (simp add: ex_defs)
  have f: "\<exists>key \<in> set [ex_k1]. \<exists>v. getitem key ''kid'' = Inr v \<and> py_eq v (JStr ''k1'')"
    by (simp add: ex_defs)
  have g: "jwt_decode ?lib ''t1'' [(''kty'', kty), (''kid'', v), (''use'', use), (''n'', n), (''e'', e)]
             [''RS256''] (AUTH0_AUDIENCE ex_cfg) (issuer ex_cfg) = Inr ex_claims"
    if "JObj f \<in> set [ex_k1]" "map_of f ''kty'' = Some kty" "map_of f ''kid'' = Some v"
      "map_of f ''use'' = Some use" "map_of f ''n'' = Some n" "map_of f ''e'' = Some e"
    for f kty v use n e
    using that by (auto simp: ex_defs)
  from valid_token_returns_claims [OF a b c d e f g]
  have r: "fst (validar_token ex_cfg ?lib ''t1'' ex_start) = Inr ex_claims"
    by simp
  have s: "snd (validar_token ex_cfg ?lib ''t1'' ex_start) = ex_cached"
    by (simp add: validar_token_world obter_jwks_def jwks_url_def ex_defs)
  from a c r s show ?thesis
    by (simp add: prod_eq_iff ex_jwks_def)
qed

subsection \<open>C5 and C7: the tokens the library refuses\<close>

lemma verificar_decoded:
  assumes "map_of d ''keys'' = Some (JArr ks)"
    and "jwt_get_unverified_header lib token = Inr h"
    and "find_rsa_key (case map_of h ''kid'' of None \<Rightarrow> JNull | Some v \<Rightarrow> v) ks = Inr rsa_key"
    and "rsa_key \<noteq> []"
  shows "verificar cfg lib token (JObj d) =
           jwt_decode lib token rsa_key [''RS256''] (AUTH0_AUDIENCE cfg) (issuer cfg)"
  using assms by (simp add: verificar_def)

lemma verificar_only_decode_accepts:
  assumes "verificar cfg lib token jwks = Inr payload"
  shows "\<exists>rsa_key. jwt_decode lib token rsa_key [''RS256''] (AUTH0_AUDIENCE cfg) (issuer cfg) = Inr payload"
  using assms
  by (auto simp: verificar_def Let_def split: sum.splits if_splits)

text \<open>
  C5, as stated, on the synthetic provider: the token \<open>t0\<close> declares the algorithm
  \<open>none\<close> and names the key \<open>k2\<close>, which the cached set does not hold. It is rejected by
  the key lookup, with the answer 401 "chave nao encontrada" that the RS256 token \<open>t2\<close>
  naming the same key gets: the algorithm has not been looked at.
\<close>

theorem algorithm_none_unknown_key_counterexample:
  "jwt_get_unverified_header (ex_lib (Inr (Response 200 ''jwks'')) (Inr ex_claims)) ''t0''
     = Inr [(''alg'', JStr ''none''), (''kid'', JStr ''k2'')]
   \<and> fst (validar_token ex_cfg (ex_lib (Inr (Response 200 ''jwks'')) (Inr ex_claims)) ''t0'' ex_cached)
     = Inl (HTTPException 401 ChaveNaoEncontrada)
   \<and> fst (validar_token ex_cfg (ex_lib (Inr (Response 200 ''jwks'')) (Inr ex_claims)) ''t2'' ex_cached)
     = Inl (HTTPException 401 ChaveNaoEncontrada)"
  by (simp add: module_defs ex_defs)

text \<open>
  C5, amended. \<open>validar_token\<close> asks \<open>jwt.decode\<close> for \<open>algorithms=["RS256"]\<close> and
  nothing else. Given that the library refuses, with a \<open>JWTError\<close>, a token whose
  declared algorithm is not among the algorithms it is asked for, a token declaring
  another algorithm than RS256 is never accepted; once its key is resolved it is
  rejected with the 401 "Token invalido ou expirado" common to all the tokens the
  library refuses.
\<close>

theorem untrusted_algorithm_never_accepted:
  assumes "jwt_get_unverified_header lib token = Inr h"
    and "map_of h ''alg'' \<noteq> Some (JStr ''RS256'')"
    and "\<And>key algorithms audience iss.
           \<forall>a \<in> set algorithms. map_of h ''alg'' \<noteq> Some (JStr a) \<Longrightarrow>
           \<exists>k. jwt_decode lib token key algorithms audience iss = Inl (JWTError k)"
  shows "(\<forall>payload. fst (validar_token cfg lib token w) \<noteq> Inr payload)
       \<and> (\<forall>d ks rsa_key.
            fst (obter_jwks cfg lib w) = Inr (JObj d) \<and> map_of d ''keys'' = Some (JArr ks) \<and>
            find_rsa_key (case map_of h ''kid'' of None \<Rightarrow> JNull | Some v \<Rightarrow> v) ks = Inr rsa_key \<and>
            rsa_key \<noteq> []
            \<longrightarrow> fst (validar_token cfg lib token w) = Inl (HTTPException 401 TokenInvalidoOuExpirado))"
proof -
  have refused: "\<exists>k. jwt_decode lib token key [''RS256''] (AUTH0_AUDIENCE cfg) (issuer cfg) = Inl (JWTError k)"
    for key
    using assms(2) by (intro assms(3)) simp
  have never: "fst (validar_token cfg lib token w) \<noteq> Inr payload" for payload
  proof
    assume acc: "fst (validar_token cfg lib token w) = Inr payload"
    then obtain jwks where "verificar cfg lib token jwks = Inr payload"
      by (auto simp: validar_token_result split: sum.splits)
    from verificar_only_decode_accepts [OF this] obtain rsa_key where
      "jwt_decode lib token rsa_key [''RS256''] (AUTH0_AUDIENCE cfg) (issuer cfg) = Inr payload"
      by blast
    with refused [of rsa_key] show False by auto
  qed
  have generic: "fst (validar_token cfg lib token w) = Inl (HTTPException 401 TokenInvalidoOuExpirado)"
    if "fst (obter_jwks cfg lib w) = Inr (JObj d)" "map_of d ''keys'' = Some (JArr ks)"
      "find_rsa_key (case map_of h ''kid'' of None \<Rightarrow> JNull | Some v \<Rightarrow> v) ks = Inr rsa_key"
      "rsa_key \<noteq> []"
    for d ks rsa_key
  proof -
    from refused [of rsa_key] obtain k where
      "jwt_decode lib token rsa_key [''RS256''] (AUTH0_AUDIENCE cfg) (issuer cfg) = Inl (JWTError k)"
      by blast
    with verificar_decoded [OF that(2) assms(1) that(3,4), of cfg]
    have "verificar cfg lib token (JObj d) = Inl (JWTError k)" by simp
    with that(1) show ?thesis
      by (simp add: validar_token_result HTTP_401_UNAUTHORIZED_def)
  qed
  from never generic show ?thesis by blast
qed

theorem untrusted_algorithm_never_accepted_witness:
  "jwt_get_unverified_header (ex_lib (Inr (Response 200 ''jwks'')) (Inr ex_claims)) ''t0''
     = Inr [(''alg'', JStr ''none''), (''kid'', JStr ''k2'')]
   \<and> fst (validar_token ex_cfg (ex_lib (Inr (Response 200 ''jwks'')) (Inr ex_claims)) ''t0''
        \<lparr>jwks_cache = JObj [(''keys'', JArr [ex_k1, JObj [(''kty'', JStr ''RSA''), (''kid'', JStr ''k2''),
            (''use'', JStr ''sig''), (''n'', JStr ''0vx7agoebG''), (''e'', JStr ''AQAB'')]])],
          requests = []\<rparr>)
     = Inl (HTTPException 401 TokenInvalidoOuExpirado)
   \<and> fst (validar_token ex_cfg (ex_lib (Inr (Response 200 ''jwks'')) (Inr ex_claims)) ''t0'' ex_start)
     \<noteq> Inr ex_claims"
proof -
  let ?lib = "ex_lib (Inr (Response 200 ''jwks'')) (Inr ex_claims)"
  let ?h = "[(''alg'', JStr ''none''), (''kid'', JStr ''k2'')]"
  let ?k2 = "JObj [(''kty'', JStr ''RSA''), (''kid'', JStr ''k2''),
            (''use'', JStr ''sig''), (''n'', JStr ''0vx7agoebG''), (''e'', JStr ''AQAB'')]"
  let ?ks = "[ex_k1, ?k2]"
  let ?d = "[(''keys'', JArr ?ks)]"
  let ?w = "\<lparr>jwks_cache = JObj ?d, requests = []\<rparr>"
  let ?rk = "[(''kty'', JStr ''RSA''), (''kid'', JStr ''k2''),
            (''use'', JStr ''sig''), (''n'', JStr ''0vx7agoebG''), (''e'', JStr ''AQAB'')]"
  have a: "jwt_get_unverified_header ?lib ''t0'' = Inr ?h" by (simp add: ex_defs)
  have b: "map_of ?h ''alg'' \<noteq> Some (JStr ''RS256'')" by simp
  have c: "\<exists>k. jwt_decode ?lib ''t0'' key algorithms audience iss = Inl (JWTError k)"
    if "\<forall>a \<in> set algorithms. map_of ?h ''alg'' \<noteq> Some (JStr a)"
    for key algorithms audience iss
    using that by (auto simp: ex_defs)
  have d: "fst (obter_jwks ex_cfg ?lib ?w) = Inr (JObj ?d)"
    by (simp add: obter_jwks_def)
  have e: "map_of ?d ''keys'' = Some (JArr ?ks)" by simp
  have f: "find_rsa_key (case map_of ?h ''kid'' of None \<Rightarrow> JNull | Some v \<Rightarrow> v) ?ks = Inr ?rk"
    by (simp add: rsa_key_of_def ex_defs)
  have g: "?rk \<noteq> []" by simp
  note t = untrusted_algorithm_never_accepted [OF a b c]
  from t [of ex_cfg ?w] d e f g
  have 1: "fst (validar_token ex_cfg ?lib ''t0'' ?w) = Inl (HTTPException 401 TokenInvalidoOuExpirado)"
    by blast
  from t [of ex_cfg ex_start]
  have 2: "fst (validar_token ex_cfg ?lib ''t0'' ex_start) \<noteq> Inr ex_claims"
    by blast
  from a 1 2 show ?thesis by simp
qed

text \<open>
  C7, as stated, on the synthetic provider: the token \<open>t1\<close> refused by the library for
  its expiry (\<open>ExpiredSignatureError\<close>), for a claim such as issuer or audience
  (\<open>JWTClaimsError\<close>) or for its signature (\<open>JWTError\<close>) gets one and the same answer.
\<close>

theorem failure_kinds_merged_counterexample:
  "fst (validar_token ex_cfg (ex_lib (Inr (Response 200 ''jwks'')) (Inl (JWTError ExpiredSignatureError)))
         ''t1'' ex_cached) = Inl (HTTPException 401 TokenInvalidoOuExpirado)
   \<and> fst (validar_token ex_cfg (ex_lib (Inr (Response 200 ''jwks'')) (Inl (JWTError JWTClaimsError)))
         ''t1'' ex_cached) = Inl (HTTPException 401 TokenInvalidoOuExpirado)
   \<and> fst (validar_token ex_cfg (ex_lib (Inr (Response 200 ''jwks'')) (Inl (JWTError JWTErrorBase)))
         ''t1'' ex_cached) = Inl (HTTPException 401 TokenInvalidoOuExpirado)"
  by (simp add: module_defs ex_defs)

text \<open>
  C7, amended. Whatever the reason for which the library refuses the token with a
  \<open>JWTError\<close>, when reading its header or when decoding it under the resolved key,
  \<open>validar_token\<close> rejects it with HTTP 401 and the single detail
  "Token invalido ou expirado".
\<close>

theorem jwt_errors_give_one_401:
  "(fst (obter_jwks cfg lib w) = Inr jwks \<and> jwt_get_unverified_header lib token = Inl (JWTError k)
      \<longrightarrow> fst (validar_token cfg lib token w) = Inl (HTTPException 401 TokenInvalidoOuExpirado))
   \<and> (fst (obter_jwks cfg lib w) = Inr (JObj d) \<and> map_of d ''keys'' = Some (JArr ks) \<and>
       jwt_get_unverified_header lib token = Inr h \<and>
       find_rsa_key (case map_of h ''kid'' of None \<Rightarrow> JNull | Some v \<Rightarrow> v) ks = Inr rsa_key \<and>
       rsa_key \<noteq> [] \<and>
       jwt_decode lib token rsa_key [''RS256''] (AUTH0_AUDIENCE cfg) (issuer cfg) = Inl (JWTError k)
      \<longrightarrow> fst (validar_token cfg lib token w) = Inl (HTTPException 401 TokenInvalidoOuExpirado))"
proof (intro conjI impI)
  assume "fst (obter_jwks cfg lib w) = Inr jwks \<and> jwt_get_unverified_header lib token = Inl (JWTError k)"
  then show "fst (validar_token cfg lib token w) = Inl (HTTPException 401 TokenInvalidoOuExpirado)"
    by (simp add: validar_token_result verificar_def HTTP_401_UNAUTHORIZED_def)
next
  assume a: "fst (obter_jwks cfg lib w) = Inr (JObj d) \<and> map_of d ''keys'' = Some (JArr ks) \<and>
       jwt_get_unverified_header lib token = Inr h \<and>
       find_rsa_key (case map_of h ''kid'' of None \<Rightarrow> JNull | Some v \<Rightarrow> v) ks = Inr rsa_key \<and>
       rsa_key \<noteq> [] \<and>
       jwt_decode lib token rsa_key [''RS256''] (AUTH0_AUDIENCE cfg) (issuer cfg) = Inl (JWTError k)"
  then have "verificar cfg lib token (JObj d) = Inl (JWTError k)"
    using verificar_decoded [of d ks lib token h rsa_key cfg] by simp
  with a show "fst (validar_token cfg lib token w) = Inl (HTTPException 401 TokenInvalidoOuExpirado)"
    by (simp add: validar_token_result HTTP_401_UNAUTHORIZED_def)
qed

theorem jwt_errors_give_one_401_witness:
  "fst (validar_token ex_cfg (ex_lib (Inr (Response 200 ''jwks'')) (Inl (JWTError ExpiredSignatureError)))
         ''t1'' ex_start) = Inl (HTTPException 401 TokenInvalidoOuExpirado)
   \<and> fst (validar_token ex_cfg (ex_lib (Inr (Response 200 ''jwks'')) (Inl (JWTError ExpiredSignatureError)))
         ''not a token'' ex_start) = Inl (HTTPException 401 TokenInvalidoOuExpirado)"
proof -
  let ?lib = "ex_lib (Inr (Response 200 ''jwks'')) (Inl (JWTError ExpiredSignatureError))"
  let ?h = "[(''alg'', JStr ''RS256''), (''kid'', JStr ''k1'')]"
  let ?d = "[(''keys'', JArr [ex_k1])]"
  let ?rk = "[(''kty'', JStr ''RSA''), (''kid'', JStr ''k1''), (''use'', JStr ''sig''),
              (''n'', JStr ''0vx7agoebG''), (''e'', JStr ''AQAB'')]"
  have a: "fst (obter_jwks ex_cfg ?lib ex_start) = Inr (JObj ?d)"
    by (simp add: obter_jwks_def ex_defs)
  have b: "map_of ?d ''keys'' = Some (JArr [ex_k1])" by simp
  have c: "jwt_get_unverified_header ?lib ''t1'' = Inr ?h" by (simp add: ex_defs)
  have d: "find_rsa_key (case map_of ?h ''kid'' of None \<Rightarrow> JNull | Some v \<Rightarrow> v) [ex_k1] = Inr ?rk"
    by (simp add: rsa_key_of_def ex_defs)
  have e: "?rk \<noteq> []" by simp
  have f: "jwt_decode ?lib ''t1'' ?rk [''RS256''] (AUTH0_AUDIENCE ex_cfg) (issuer ex_cfg)
             = Inl (JWTError ExpiredSignatureError)"
    by (simp add: ex_defs)
  have g: "jwt_get_unverified_header ?lib ''not a token'' = Inl (JWTError JWTErrorBase)"
    by (simp add: ex_defs)
  from jwt_errors_give_one_401 [of ex_cfg ?lib ex_start _ "''t1''" ExpiredSignatureError ?d "[ex_k1]" ?h ?rk]
    a b c d e f
  have 1: "fst (validar_token ex_cfg ?lib ''t1'' ex_start) = Inl (HTTPException 401 TokenInvalidoOuExpirado)"
    by simp
  from jwt_errors_give_one_401 [of ex_cfg ?lib ex_start "JObj ?d" "''not a token''" JWTErrorBase] a g
  have 2: "fst (validar_token ex_cfg ?lib ''not a token'' ex_start) = Inl (HTTPException 401 TokenInvalidoOuExpirado)"
    by simp
  from 1 2 show ?thesis by simp
qed

end
